theory Spec2Isabelle
  imports Complex_Main
begin

section \<open>Descriptor-based regression notebook: data model\<close>

text \<open>
  The program is the notebook \<^verbatim>\<open>0_ml-using-chemical-descriptors.ipynb\<close>. Its cells are glue
  between pandas, RDKit, Mordred and scikit-learn. The model below follows the cells in order.
  A library call is modelled by what its documentation says it computes; a call whose
  result comes from a pseudo-random generator, a parser, a descriptor engine, a numerical
  solver or the rounding of IEEE double arithmetic is a parameter of the model. The
  formulas of scikit-learn (means, scales, projections, scores) are written over the reals.

  A cell of the descriptor table is a number, the float NaN, or one of Mordred's error
  objects (returned when a descriptor is undefined for a molecule).
\<close>

datatype cell = Num real | NaN | Err

text \<open>
  A DataFrame keeps its row labels (\<open>index\<close>) apart from its columns, so a table without
  columns still has rows. Columns are kept in order, each with its label.
\<close>

record frame =
  index :: "nat list"
  columns :: "(string \<times> cell list) list"

datatype error = TypeError | ValueError | IndexError

section \<open>Means and variances\<close>

definition mean :: "real list \<Rightarrow> real" where
  "mean vs = sum_list vs / real (length vs)"

text \<open>\<^verbatim>\<open>numpy.var\<close>: the population variance (\<open>ddof=0\<close>) of a non-empty list of numbers.\<close>

definition variance :: "real list \<Rightarrow> real" where
  "variance vs = sum_list (map (\<lambda>v. (v - mean vs)\<^sup>2) vs) / real (length vs)"

section \<open>Loading, sampling and parsing\<close>

text \<open>
  One line of the input file: its row label, the structure string and the target. The
  other fields of the file are not read by the notebook.
\<close>

record entry =
  label :: nat
  smiles_0 :: string
  bandgap :: real

text \<open>Errors are values; a cell that raises stops the run at that cell.\<close>

fun and_then :: "error + 'a \<Rightarrow> ('a \<Rightarrow> error + 'b) \<Rightarrow> error + 'b" where
  "and_then (Inl e) f = Inl e"
| "and_then (Inr x) f = f x"

text \<open>Positional row selection (\<^verbatim>\<open>take\<close>, \<^verbatim>\<open>iloc\<close>): an index out of bounds raises IndexError.\<close>

definition take_rows :: "nat list \<Rightarrow> 'a list \<Rightarrow> error + 'a list" where
  "take_rows idx xs =
     (if list_all (\<lambda>i. i < length xs) idx then Inr (map ((!) xs) idx) else Inl IndexError)"

definition iloc :: "nat list \<Rightarrow> frame \<Rightarrow> error + frame" where
  "iloc idx d =
     (if list_all (\<lambda>i. i < length (index d)) idx
      then Inr \<lparr>index = map ((!) (index d)) idx,
                columns = map (\<lambda>(c, xs). (c, map ((!) xs) idx)) (columns d)\<rparr>
      else Inl IndexError)"

text \<open>
  The libraries the notebook calls into, as far as their results come from a generator,
  a parser, a descriptor engine, a numerical solver or floating-point rounding. \<open>'g\<close> is
  the state of numpy's global generator, \<open>'m\<close> a molecular graph.
  \<^item> \<open>seed\<close>: the generator state that \<^verbatim>\<open>np.random.seed(s)\<close> installs;
  \<^item> \<open>permutation\<close>: \<^verbatim>\<open>RandomState.permutation(n)\<close>, the drawn permutation and the next state;
  \<^item> \<open>MolFromSmiles\<close>: RDKit's parser, \<open>None\<close> for a string that does not parse;
  \<^item> \<open>names\<close>, \<open>calculate\<close>: Mordred's calculator: the descriptor names, and the values of
    all descriptors for one molecule, an error object where a descriptor is undefined;
  \<^item> \<open>series_std\<close>: the sample standard deviation (\<open>ddof=1\<close>) that pandas returns for a list
    of numbers, as computed in IEEE doubles: a finite double, or \<open>None\<close> for NaN (fewer
    than two numbers) or infinity;
  \<^item> \<open>svd\<close>: the principal axes that PCA's solver returns for a centred matrix, and the
    generator state it leaves: for a large matrix the default solver is the randomized one,
    which is given no \<^verbatim>\<open>random_state\<close> and draws from the global generator;
  \<^item> \<open>lasso_cv\<close>: the coefficients and intercept that \<^verbatim>\<open>LassoCV().fit\<close> returns (with the
    default cyclic selection and unshuffled folds it draws no random numbers).
\<close>

record lasso =
  coef :: "real list"
  intercept :: real

record ('g, 'm) library =
  seed :: "nat \<Rightarrow> 'g"
  permutation :: "'g \<Rightarrow> nat \<Rightarrow> nat list \<times> 'g"
  MolFromSmiles :: "string \<Rightarrow> 'm option"
  names :: "string list"
  calculate :: "'m \<Rightarrow> cell list"
  series_std :: "real list \<Rightarrow> real option"
  svd :: "'g \<Rightarrow> nat \<Rightarrow> real list list \<Rightarrow> real list list \<times> 'g"
  lasso_cv :: "real list list \<Rightarrow> real list \<Rightarrow> error + lasso"

text \<open>
  \<^verbatim>\<open>data = pd.read_json(...).sample(1024)\<close>. No \<^verbatim>\<open>random_state\<close> is passed, so pandas draws
  from numpy's global generator: the rows at the first \<open>n\<close> positions of a permutation.
  Asking for more rows than there are raises ValueError.
\<close>

definition sample :: "('g, 'm) library \<Rightarrow> nat \<Rightarrow> 'g \<Rightarrow> entry list \<Rightarrow> error + (entry list \<times> 'g)" where
  "sample L n g file =
     (if length file < n then Inl ValueError
      else case permutation L g (length file) of
        (p, g') \<Rightarrow> and_then (take_rows (take n p) file) (\<lambda>rows. Inr (rows, g')))"

text \<open>
  \<^verbatim>\<open>data['mol'] = data['smiles_0'].apply(Chem.MolFromSmiles)\<close>: a Series with the labels of
  \<open>data\<close>, one parse result per row.
\<close>

definition mol_column :: "('g, 'm) library \<Rightarrow> entry list \<Rightarrow> (nat \<times> 'm option) list" where
  "mol_column L data = map (\<lambda>e. (label e, MolFromSmiles L (smiles_0 e))) data"

text \<open>Run a fallible function over a list, stopping at the first error.\<close>

fun map_err :: "('a \<Rightarrow> error + 'b) \<Rightarrow> 'a list \<Rightarrow> error + 'b list" where
  "map_err f [] = Inr []"
| "map_err f (x # xs) = and_then (f x) (\<lambda>y. and_then (map_err f xs) (\<lambda>ys. Inr (y # ys)))"

text \<open>
  \<^verbatim>\<open>desc = calc.pandas(data['mol'], nproc=1)\<close>: the calculator is applied to every element of
  the Series, in order. Mordred checks that the element is an RDKit molecule and raises
  TypeError on a null. The result has the labels of the Series and one column per
  descriptor name.
\<close>

definition calc_one :: "('g, 'm) library \<Rightarrow> 'm option \<Rightarrow> error + cell list" where
  "calc_one L m = (case m of None \<Rightarrow> Inl TypeError | Some mol \<Rightarrow> Inr (calculate L mol))"

definition calc_pandas :: "('g, 'm) library \<Rightarrow> (nat \<times> 'm option) list \<Rightarrow> error + frame" where
  "calc_pandas L mols =
     and_then (map_err (\<lambda>(i, m). calc_one L m) mols)
       (\<lambda>rows. Inr \<lparr>index = map fst mols,
                     columns = map (\<lambda>j. (names L ! j, map (\<lambda>r. r ! j) rows))
                                 [0..<length (names L)]\<rparr>)"

definition descriptor_step :: "('g, 'm) library \<Rightarrow> entry list \<Rightarrow> error + frame" where
  "descriptor_step L data = calc_pandas L (mol_column L data)"

section \<open>Feature cleaning (pandas)\<close>

text \<open>The non-missing numbers of a column: what pandas reduces over with \<open>skipna=True\<close>.\<close>

fun notna :: "cell list \<Rightarrow> real list" where
  "notna [] = []"
| "notna (Num v # xs) = v # notna xs"
| "notna (NaN # xs) = notna xs"
| "notna (Err # xs) = notna xs"

text \<open>
  A column that holds an error object has dtype \<open>object\<close>. \<^verbatim>\<open>desc.std()\<close> reduces the
  numeric columns only (pandas 1.x, the version of the notebook's kernel, leaves the others
  out of the result), each over its non-missing numbers. The value it returns for a column
  is the double that pandas computed, \<open>series_std\<close> of the library.
\<close>

definition is_numeric :: "cell list \<Rightarrow> bool" where
  "is_numeric xs = (Err \<notin> set xs)"

definition frame_std :: "('g, 'm) library \<Rightarrow> frame \<Rightarrow> (string \<times> real option) list" where
  "frame_std L d = [(c, series_std L (notna xs)). (c, xs) \<leftarrow> columns d, is_numeric xs]"

text \<open>
  \<^verbatim>\<open>zero_variation = [c for c, s in desc.std().items() if s == 0]\<close>: the test is an exact
  comparison of the computed double with 0; NaN and infinity are not equal to 0.
\<close>

definition zero_variation :: "('g, 'm) library \<Rightarrow> frame \<Rightarrow> string list" where
  "zero_variation L d = [c. (c, s) \<leftarrow> frame_std L d, s = Some 0]"

text \<open>\<^verbatim>\<open>desc.drop(columns=zero_variation, inplace=True)\<close>: every column with such a label goes.\<close>

definition drop_columns :: "string list \<Rightarrow> frame \<Rightarrow> frame" where
  "drop_columns cs d = d\<lparr>columns := filter (\<lambda>(c, xs). c \<notin> set cs) (columns d)\<rparr>"

text \<open>\<^verbatim>\<open>pd.to_numeric(..., errors='coerce')\<close> on one value: what does not parse becomes NaN.\<close>

fun to_numeric :: "cell \<Rightarrow> cell" where
  "to_numeric (Num v) = Num v"
| "to_numeric NaN = NaN"
| "to_numeric Err = NaN"

text \<open>
  \<^verbatim>\<open>for c in desc.columns: desc[c] = pd.to_numeric(desc[c], errors='coerce')\<close>.
  With a repeated label \<^verbatim>\<open>desc[c]\<close> is a DataFrame and \<^verbatim>\<open>to_numeric\<close> raises TypeError.
\<close>

definition coerce_columns :: "frame \<Rightarrow> error + frame" where
  "coerce_columns d =
     (if distinct (map fst (columns d))
      then Inr (d\<lparr>columns := map (\<lambda>(c, xs). (c, map to_numeric xs)) (columns d)\<rparr>)
      else Inl TypeError)"

fun isnull :: "cell \<Rightarrow> bool" where
  "isnull NaN = True"
| "isnull (Num v) = False"
| "isnull Err = False"

text \<open>\<^verbatim>\<open>missing_values = desc.isnull().any()\<close>: one flag per column.\<close>

definition missing_values :: "frame \<Rightarrow> bool list" where
  "missing_values d = map (\<lambda>(c, xs). list_ex isnull xs) (columns d)"

text \<open>\<^verbatim>\<open>desc = desc.loc[:, ~missing_values]\<close>: the columns whose flag is off.\<close>

definition loc_not :: "bool list \<Rightarrow> frame \<Rightarrow> frame" where
  "loc_not flags d = d\<lparr>columns := map snd (filter (\<lambda>(m, col). \<not> m) (zip flags (columns d)))\<rparr>"

text \<open>The three cleaning cells, in the notebook's order.\<close>

definition clean :: "('g, 'm) library \<Rightarrow> frame \<Rightarrow> error + frame" where
  "clean L d =
     (case coerce_columns (drop_columns (zero_variation L d) d) of
        Inl e \<Rightarrow> Inl e
      | Inr d2 \<Rightarrow> Inr (loc_not (missing_values d2) d2))"

text \<open>A column has no missing value when every cell is a number.\<close>

definition all_numbers :: "cell list \<Rightarrow> bool" where
  "all_numbers xs = list_all (\<lambda>x. case x of Num v \<Rightarrow> True | _ \<Rightarrow> False) xs"

section \<open>Scaling (StandardScaler)\<close>

text \<open>
  scikit-learn works on arrays of shape \<open>(n_samples, n_features)\<close>: a list of rows. Input
  validation asks for at least one row and one column, all rows of one length.
\<close>

definition check_array :: "real list list \<Rightarrow> error + real list list" where
  "check_array X =
     (if X = [] \<or> hd X = [] \<or> \<not> list_all (\<lambda>r. length r = length (hd X)) X
      then Inl ValueError else Inr X)"

text \<open>
  A DataFrame handed to an estimator is converted to such an array. A table with a missing
  value or an error object is refused with ValueError (PCA and LassoCV refuse NaN; the
  cleaned table holds neither).
\<close>

fun as_float :: "cell \<Rightarrow> real" where
  "as_float (Num v) = v"
| "as_float NaN = 0"
| "as_float Err = 0"

definition to_array :: "frame \<Rightarrow> error + real list list" where
  "to_array d =
     (if list_all (\<lambda>(c, xs). all_numbers xs) (columns d)
      then Inr (map (\<lambda>i. map (\<lambda>(c, xs). as_float (xs ! i)) (columns d)) [0..<length (index d)])
      else Inl ValueError)"

definition column :: "nat \<Rightarrow> real list list \<Rightarrow> real list" where
  "column j X = map (\<lambda>r. r ! j) X"

text \<open>
  The fitted scaler: \<open>means\<close> is \<^verbatim>\<open>mean_\<close>, \<open>scales\<close> is \<^verbatim>\<open>scale_\<close>. The scale of a column
  is the square root of its population variance; a scale of zero is replaced by one.
\<close>

record scaler =
  means :: "real list"
  scales :: "real list"

definition handle_zeros_in_scale :: "real \<Rightarrow> real" where
  "handle_zeros_in_scale s = (if s = 0 then 1 else s)"

definition scaler_fit :: "real list list \<Rightarrow> error + scaler" where
  "scaler_fit X0 =
     and_then (check_array X0)
       (\<lambda>X. let cols = map (\<lambda>j. column j X) [0..<length (hd X)]
            in Inr \<lparr>means = map mean cols,
                    scales = map (\<lambda>c. handle_zeros_in_scale (sqrt (variance c))) cols\<rparr>)"

definition scale_row :: "scaler \<Rightarrow> real list \<Rightarrow> real list" where
  "scale_row sc r = map (\<lambda>(x, m, s). (x - m) / s) (zip r (zip (means sc) (scales sc)))"

definition scaler_transform :: "scaler \<Rightarrow> real list list \<Rightarrow> error + real list list" where
  "scaler_transform sc X0 =
     and_then (check_array X0)
       (\<lambda>X. if length (hd X) \<noteq> length (means sc) then Inl ValueError
            else Inr (map (scale_row sc) X))"

definition scaler_fit_transform :: "real list list \<Rightarrow> error + (scaler \<times> real list list)" where
  "scaler_fit_transform X =
     and_then (scaler_fit X) (\<lambda>sc. and_then (scaler_transform sc X) (\<lambda>Y. Inr (sc, Y)))"

section \<open>Compression (PCA)\<close>

text \<open>
  The fitted PCA: the column means and the principal axes (one row per component). The
  requested number of components may not exceed the number of rows or of columns.
  \<^verbatim>\<open>fit\<close> takes the state of the global generator and returns the state the solver leaves.
  \<^verbatim>\<open>transform\<close> centres a row and projects it on each axis; \<^verbatim>\<open>fit_transform\<close> returns the
  projection of the training matrix itself.
\<close>

record pca =
  pca_mean :: "real list"
  components :: "real list list"

definition pca_fit ::
  "('g, 'm) library \<Rightarrow> nat \<Rightarrow> 'g \<Rightarrow> real list list \<Rightarrow> error + (pca \<times> 'g)" where
  "pca_fit L k g X0 =
     and_then (check_array X0)
       (\<lambda>X. if min (length X) (length (hd X)) < k then Inl ValueError
            else let mu = map (\<lambda>j. mean (column j X)) [0..<length (hd X)]
                 in case svd L g k (map (\<lambda>r. map2 (-) r mu) X) of
                      (axes, g') \<Rightarrow> Inr (\<lparr>pca_mean = mu, components = axes\<rparr>, g'))"

definition project :: "pca \<Rightarrow> real list \<Rightarrow> real list" where
  "project p r = map (\<lambda>axis. sum_list (map2 (*) (map2 (-) r (pca_mean p)) axis)) (components p)"

definition pca_transform :: "pca \<Rightarrow> real list list \<Rightarrow> error + real list list" where
  "pca_transform p X0 =
     and_then (check_array X0)
       (\<lambda>X. if length (hd X) \<noteq> length (pca_mean p) then Inl ValueError
            else Inr (map (project p) X))"

definition pca_fit_transform ::
  "('g, 'm) library \<Rightarrow> nat \<Rightarrow> 'g \<Rightarrow> real list list
     \<Rightarrow> error + (pca \<times> real list list \<times> 'g)" where
  "pca_fit_transform L k g X =
     and_then (pca_fit L k g X) (\<lambda>(p, g').
     and_then (pca_transform p X) (\<lambda>Y. Inr (p, Y, g')))"

section \<open>Regression and the model pipeline\<close>

definition lasso_predict :: "lasso \<Rightarrow> real list \<Rightarrow> real" where
  "lasso_predict l r = sum_list (map2 (*) r (coef l)) + intercept l"

text \<open>
  \<^verbatim>\<open>Pipeline([('scale', StandardScaler()), ('pca', PCA(n_components=k)), ('lasso', LassoCV())])\<close>.
  \<^verbatim>\<open>fit\<close> fits each step on the output of the one before; \<^verbatim>\<open>predict\<close> applies the fitted
  steps. \<^verbatim>\<open>predict\<close> returns the pipeline object as it is after the call, next to the
  predictions.
\<close>

record pipeline =
  scale_step :: scaler
  pca_step :: pca
  lasso_step :: lasso

definition pipeline_fit ::
  "('g, 'm) library \<Rightarrow> nat \<Rightarrow> 'g \<Rightarrow> real list list \<Rightarrow> real list
     \<Rightarrow> error + (pipeline \<times> 'g)" where
  "pipeline_fit L k g X y =
     and_then (scaler_fit_transform X) (\<lambda>(sc, Xs).
     and_then (pca_fit_transform L k g Xs) (\<lambda>(p, Xp, g').
     and_then (lasso_cv L Xp y) (\<lambda>l.
     Inr (\<lparr>scale_step = sc, pca_step = p, lasso_step = l\<rparr>, g'))))"

definition pipeline_predict ::
  "pipeline \<Rightarrow> real list list \<Rightarrow> error + (pipeline \<times> real list)" where
  "pipeline_predict m X =
     and_then (scaler_transform (scale_step m) X) (\<lambda>Xs.
     and_then (pca_transform (pca_step m) Xs) (\<lambda>Xp.
     Inr (m, map (lasso_predict (lasso_step m)) Xp)))"

section \<open>Hold-out split and evaluation\<close>

text \<open>
  \<^verbatim>\<open>train_test_split(data, desc, test_size=0.1)\<close>. No \<^verbatim>\<open>random_state\<close> is passed, so
  scikit-learn draws one permutation from numpy's global generator; its first \<open>n_test\<close>
  positions are the test rows, the next \<open>n_train\<close> the training rows, and both tables are
  indexed with the same positions. The result is in the order of the source's unpacking:
  \<open>train_data, test_data, train_desc, test_desc\<close>.
\<close>

definition train_test_split ::
  "nat list \<Rightarrow> real \<Rightarrow> entry list \<Rightarrow> frame
     \<Rightarrow> error + (entry list \<times> entry list \<times> frame \<times> frame)" where
  "train_test_split perm test_size data desc =
     (let n = length data;
          n_test = nat \<lceil>test_size * real n\<rceil>;
          n_train = n - n_test;
          test = take n_test perm;
          train = take n_train (drop n_test perm)
      in if length (index desc) \<noteq> n then Inl ValueError
         else if test_size \<le> 0 \<or> 1 \<le> test_size then Inl ValueError
         else if n_train = 0 then Inl ValueError
         else and_then (take_rows train data) (\<lambda>train_data.
              and_then (take_rows test data) (\<lambda>test_data.
              and_then (iloc train desc) (\<lambda>train_desc.
              and_then (iloc test desc) (\<lambda>test_desc.
              Inr (train_data, test_data, train_desc, test_desc))))))"

text \<open>Row \<open>i\<close> of a table: its label and its values, column by column.\<close>

definition frame_row :: "frame \<Rightarrow> nat \<Rightarrow> nat \<times> cell list" where
  "frame_row d i = (index d ! i, map (\<lambda>(c, xs). xs ! i) (columns d))"

text \<open>
  \<^verbatim>\<open>model.fit(train_desc, train_data['bandgap']).predict(test_desc)\<close>: the pipeline after
  both calls, the predictions for the test rows, and the generator state after the fit.
\<close>

definition fit_predict ::
  "('g, 'm) library \<Rightarrow> nat \<Rightarrow> 'g \<Rightarrow> frame \<Rightarrow> entry list \<Rightarrow> frame
     \<Rightarrow> error + (pipeline \<times> real list \<times> 'g)" where
  "fit_predict L k g train_desc train_data test_desc =
     and_then (to_array train_desc) (\<lambda>X.
     and_then (pipeline_fit L k g X (map bandgap train_data)) (\<lambda>(m, g').
     and_then (to_array test_desc) (\<lambda>Xt.
     and_then (pipeline_predict m Xt) (\<lambda>(m', predictions).
     Inr (m', predictions, g')))))"

text \<open>
  \<^verbatim>\<open>sklearn.metrics.r2_score(y_true, y_pred)\<close>: one minus the residual sum of squares over the
  total sum of squares of \<open>y_true\<close>. With fewer than two samples the score is NaN (\<open>None\<close>);
  with a constant \<open>y_true\<close> it is 1 for a perfect prediction and 0 otherwise.
\<close>

definition r2_score :: "real list \<Rightarrow> real list \<Rightarrow> error + real option" where
  "r2_score y_true y_pred =
     (if length y_true \<noteq> length y_pred then Inl ValueError
      else if y_true = [] then Inl ValueError
      else if length y_pred < 2 then Inr None
      else let numerator = sum_list (map2 (\<lambda>t p. (t - p)\<^sup>2) y_true y_pred);
               denominator = sum_list (map (\<lambda>t. (t - mean y_true)\<^sup>2) y_true)
           in if denominator \<noteq> 0 then Inr (Some (1 - numerator / denominator))
              else if numerator \<noteq> 0 then Inr (Some 0)
              else Inr (Some 1))"

text \<open>
  \<^verbatim>\<open>sklearn.metrics.mean_absolute_error(y_true, y_pred)\<close>. The notebook imports it and never
  calls it.
\<close>

definition mean_absolute_error :: "real list \<Rightarrow> real list \<Rightarrow> error + real" where
  "mean_absolute_error y_true y_pred =
     (if length y_true \<noteq> length y_pred then Inl ValueError
      else if y_true = [] then Inl ValueError
      else Inr (mean (map2 (\<lambda>t p. \<bar>t - p\<bar>) y_true y_pred)))"

text \<open>
  The comparison cell, for one model column \<open>col\<close> of \<open>test_data\<close>:
  \<^verbatim>\<open>r2 = r2_score(test_data[col], test_data['bandgap'])\<close>. The score is the only number the
  cell computes.
\<close>

definition report_r2 :: "real list \<Rightarrow> entry list \<Rightarrow> error + real option" where
  "report_r2 predictions test_data = r2_score predictions (map bandgap test_data)"

section \<open>The notebook, top to bottom\<close>

text \<open>
  The literals of the notebook that size the run: the sample size, the number of
  components of the stand-alone PCA and of the two pipeline fits, and the held-out fraction.
\<close>

record config =
  n_sample :: nat
  explore_components :: nat
  model_components :: nat
  reduced_components :: nat
  test_size :: real

definition notebook_config :: config where
  "notebook_config =
     \<lparr>n_sample = 1024, explore_components = 16, model_components = 16,
      reduced_components = 8, test_size = 1 / 10\<rparr>"

text \<open>
  The section that tries the components one by one: descriptors, cleaning, then
  \<^verbatim>\<open>scaler.fit_transform(desc)\<close>, \<^verbatim>\<open>pca.fit_transform(feats)\<close> and
  \<^verbatim>\<open>LassoCV().fit(pca_feats, data['bandgap'])\<close>, all on the whole table.
\<close>

record exploration =
  desc :: frame
  scaler_obj :: scaler
  feats :: "real list list"
  pca_obj :: pca
  pca_feats :: "real list list"
  lasso_obj :: lasso

definition explore ::
  "('g, 'm) library \<Rightarrow> nat \<Rightarrow> 'g \<Rightarrow> entry list \<Rightarrow> error + (exploration \<times> 'g)" where
  "explore L k g data =
     and_then (descriptor_step L data) (\<lambda>desc0.
     and_then (clean L desc0) (\<lambda>d.
     and_then (to_array d) (\<lambda>X.
     and_then (scaler_fit_transform X) (\<lambda>(sc, F).
     and_then (pca_fit_transform L k g F) (\<lambda>(p, PF, g').
     and_then (lasso_cv L PF (map bandgap data)) (\<lambda>l.
     Inr (\<lparr>desc = d, scaler_obj = sc, feats = F, pca_obj = p, pca_feats = PF,
           lasso_obj = l\<rparr>, g')))))))"

text \<open>
  What a run leaves behind: the sample, the exploration results, the four partitions, the
  two prediction columns added to \<open>test_data\<close>, the two scores in the order the comparison
  cell computes them (reduced model first), and the state of the global generator.
\<close>

record 'g outcome =
  data_out :: "entry list"
  exploration_out :: exploration
  split_out :: "entry list \<times> entry list \<times> frame \<times> frame"
  model_predictions :: "real list"
  reduced_predictions :: "real list"
  r2_out :: "real option list"
  generator_out :: 'g

text \<open>
  The split cell draws its permutation from the global generator, as the sampling cell
  does. The cells after the seed cell, from a given state of the global generator: the
  sampling cell, the stand-alone PCA, the split cell and the PCA inside each of the two
  pipeline fits draw from it, each from the state the one before left.
\<close>

definition split_cell ::
  "('g, 'm) library \<Rightarrow> real \<Rightarrow> 'g \<Rightarrow> entry list \<Rightarrow> frame
     \<Rightarrow> error + ((entry list \<times> entry list \<times> frame \<times> frame) \<times> 'g)" where
  "split_cell L ts g data d =
     (case permutation L g (length data) of
        (perm, g') \<Rightarrow> and_then (train_test_split perm ts data d) (\<lambda>parts. Inr (parts, g')))"

definition run_from ::
  "('g, 'm) library \<Rightarrow> config \<Rightarrow> entry list \<Rightarrow> 'g \<Rightarrow> error + 'g outcome" where
  "run_from L cfg file g0 =
     and_then (sample L (n_sample cfg) g0 file) (\<lambda>(data, g1).
     and_then (explore L (explore_components cfg) g1 data) (\<lambda>(ex, g2).
     and_then (split_cell L (test_size cfg) g2 data (desc ex))
       (\<lambda>((train_data, test_data, train_desc, test_desc), g3).
     and_then (fit_predict L (model_components cfg) g3 train_desc train_data test_desc)
       (\<lambda>(m1, p1, g4).
     and_then (fit_predict L (reduced_components cfg) g4 train_desc train_data test_desc)
       (\<lambda>(m2, p2, g5).
     and_then (report_r2 p2 test_data) (\<lambda>r2_reduced.
     and_then (report_r2 p1 test_data) (\<lambda>r2_model.
     Inr \<lparr>data_out = data, exploration_out = ex,
          split_out = (train_data, test_data, train_desc, test_desc),
          model_predictions = p1, reduced_predictions = p2,
          r2_out = [r2_reduced, r2_model], generator_out = g5\<rparr>)))))))"

text \<open>
  \<^verbatim>\<open>np.random.seed(128)\<close>: the cell puts the global generator in the state of the seed,
  whatever state it was in.
\<close>

definition np_random_seed :: "('g, 'm) library \<Rightarrow> nat \<Rightarrow> 'g \<Rightarrow> 'g" where
  "np_random_seed L s g = seed L s"

text \<open>
  A run of the notebook, top to bottom, in a process whose global generator is in state
  \<open>ambient\<close> when the first cell starts.
\<close>

definition run :: "('g, 'm) library \<Rightarrow> config \<Rightarrow> entry list \<Rightarrow> 'g \<Rightarrow> error + 'g outcome" where
  "run L cfg file ambient = run_from L cfg file (np_random_seed L 128 ambient)"

text \<open>
  A small library to evaluate the cells on concrete inputs: the generator state is a
  counter and the permutation a rotation by it; the molecules are the linear alkanes,
  written as a run of \<open>C\<close> and represented by their number of carbon atoms; the descriptors
  are the numbers of carbon, boron and hydrogen atoms; the standard deviation is the exact
  one, without rounding; the principal axes are coordinate axes and the solver advances
  the generator by one; the regression is the constant model.
\<close>

definition demo_library :: "(nat, nat) library" where
  "demo_library =
     \<lparr>seed = (\<lambda>s. s),
      permutation = (\<lambda>g n. (map (\<lambda>i. (i + g) mod n) [0..<n], Suc g)),
      MolFromSmiles = (\<lambda>s. if s \<noteq> [] \<and> list_all (\<lambda>c. c = CHR ''C'') s
                           then Some (length s) else None),
      names = [''nC'', ''nB'', ''nH''],
      calculate = (\<lambda>n. [Num (real n), Num 0, Num (2 * real n + 2)]),
      series_std = (\<lambda>vs. if length vs \<le> 1 then None
                         else Some (sqrt (sum_list (map (\<lambda>v. (mean vs - v)\<^sup>2) vs)
                                          / real (length vs - 1)))),
      svd = (\<lambda>g k X. (map (\<lambda>i. map (\<lambda>j. if i = j then 1 else 0) [0..<length (hd X)]) [0..<k],
                       Suc g)),
      lasso_cv = (\<lambda>X y. if X = [] then Inl ValueError
                         else Inr \<lparr>coef = replicate (length (hd X)) 0, intercept = mean y\<rparr>)\<rparr>"

section \<open>Properties of feature cleaning\<close>

lemma and_then_Inr: "and_then m f = Inr y \<longleftrightarrow> (\<exists>x. m = Inr x \<and> f x = Inr y)"
  by (cases m) simp_all

lemma to_numeric_all_numbers:
  "\<not> list_ex isnull (map to_numeric xs) \<Longrightarrow> all_numbers xs \<and> map to_numeric xs = xs"
  by (induction xs rule: notna.induct) (simp_all add: all_numbers_def)

lemma loc_not_columns:
  "set (columns (loc_not (missing_values d) d)) = {(c, xs) \<in> set (columns d). \<not> list_ex isnull xs}"
proof -
  have "map snd (filter (\<lambda>(m, col). \<not> m) (zip (map f cs) cs)) = filter (\<lambda>col. \<not> f col) cs"
    for f :: "string \<times> cell list \<Rightarrow> bool" and cs
    by (induction cs) simp_all
  then show ?thesis
    by (auto simp: loc_not_def missing_values_def)
qed

lemma clean_columns:
  assumes "clean L d = Inr d'" and "(c, ys) \<in> set (columns d')"
  shows "all_numbers ys \<and> (c, ys) \<in> set (columns d) \<and> c \<notin> set (zero_variation L d)"
proof -
  let ?d1 = "drop_columns (zero_variation L d) d"
  obtain d2 where d2: "coerce_columns ?d1 = Inr d2" and d': "d' = loc_not (missing_values d2) d2"
    using assms(1) by (auto simp: clean_def split: sum.splits)
  from assms(2) d' have in2: "(c, ys) \<in> set (columns d2)" and nn: "\<not> list_ex isnull ys"
    by (simp_all add: loc_not_columns)
  from d2 have "columns d2 = map (\<lambda>(c, xs). (c, map to_numeric xs)) (columns ?d1)"
    by (auto simp: coerce_columns_def split: if_splits)
  with in2 obtain xs where xs: "(c, xs) \<in> set (columns ?d1)" and ys: "ys = map to_numeric xs"
    by auto
  from nn ys have "all_numbers xs" and "ys = xs"
    using to_numeric_all_numbers by auto
  moreover from xs have "(c, xs) \<in> set (columns d)" and "c \<notin> set (zero_variation L d)"
    by (auto simp: drop_columns_def)
  ultimately show ?thesis by simp
qed

text \<open>
  What the cleaning cells guarantee for a column they leave in the table: it holds numbers
  only, and the standard deviation that pandas returned for it is not exactly 0. That the
  column varies does not follow: the rounding of the mean can give a column whose value is
  the same in all rows a tiny nonzero standard deviation, and such a column is kept.
\<close>

lemma clean_columns_guarantee:
  assumes "clean L d = Inr d'" and "(c, xs) \<in> set (columns d')"
  shows "all_numbers xs \<and> series_std L (notna xs) \<noteq> Some 0"
proof -
  from assms have num: "all_numbers xs" and src: "(c, xs) \<in> set (columns d)"
    and nz: "c \<notin> set (zero_variation L d)"
    using clean_columns by blast+
  from num have "is_numeric xs"
    by (induction xs rule: notna.induct) (simp_all add: all_numbers_def is_numeric_def)
  with src have "(c, series_std L (notna xs)) \<in> set (frame_std L d)"
    by (force simp: frame_std_def)
  with nz have "series_std L (notna xs) \<noteq> Some 0"
    by (force simp: zero_variation_def)
  with num show ?thesis
    by simp
qed

lemma clean_index: "clean L d = Inr d' \<Longrightarrow> index d' = index d"
  by (auto simp: clean_def coerce_columns_def drop_columns_def loc_not_def
      split: sum.splits if_splits)

section \<open>Properties of scaling\<close>

lemma variance_nonneg: "0 \<le> variance vs"
proof -
  have "0 \<le> sum_list (map (\<lambda>v. (v - mean vs)\<^sup>2) vs)"
    by (rule sum_list_nonneg) auto
  then show ?thesis
    by (simp add: variance_def)
qed

lemma handle_zeros_in_scale_pos: "0 \<le> s \<Longrightarrow> 0 < handle_zeros_in_scale s"
  by (simp add: handle_zeros_in_scale_def)

text \<open>
  C9. On every table the scaler can be fit on, a constant column included, there is one
  scale per column and each scale is nonzero (greater than zero): the scale of a
  constant column is set to one. So \<open>(value - mean) / scale\<close> never divides by zero.
\<close>

theorem scaler_fit_scale_nonzero:
  assumes "scaler_fit X = Inr sc"
  shows "length (scales sc) = length (hd X) \<and> (\<forall>s \<in> set (scales sc). s \<noteq> 0 \<and> 0 < s)"
proof -
  from assms have sc: "scales sc =
      map (\<lambda>c. handle_zeros_in_scale (sqrt (variance c))) (map (\<lambda>j. column j X) [0..<length (hd X)])"
    by (auto simp: scaler_fit_def and_then_Inr check_array_def Let_def split: if_splits)
  have "0 < handle_zeros_in_scale (sqrt (variance c))" for c
    by (rule handle_zeros_in_scale_pos) (simp add: variance_nonneg)
  then have "handle_zeros_in_scale (sqrt (variance c)) \<noteq> 0
      \<and> 0 < handle_zeros_in_scale (sqrt (variance c))" for c
    by (simp add: less_imp_neq [THEN not_sym])
  with sc show ?thesis
    by auto
qed

text \<open>The second column is constant in this table; its scale is one.\<close>

theorem scaler_fit_scale_nonzero_witness:
  "scaler_fit [[1, 7], [3, 7]] = Inr \<lparr>means = [2, 7], scales = [1, 1]\<rparr>
   \<and> list_all (\<lambda>s. s \<noteq> 0 \<and> 0 < s) (scales \<lparr>means = [2, 7], scales = [1, 1]\<rparr>)"
proof -
  have fit: "scaler_fit [[1, 7], [3, 7]] = Inr \<lparr>means = [2, 7], scales = [1, 1]\<rparr>"
    by (simp add: scaler_fit_def check_array_def column_def mean_def variance_def
        handle_zeros_in_scale_def upt_rec)
  from scaler_fit_scale_nonzero [OF fit] fit show ?thesis
    by simp
qed

section \<open>Properties of the evaluation\<close>

text \<open>
  C3. The comparison cell passes the predictions where \<open>r2_score\<close> takes the reference and
  the true band gaps where it takes the estimate. On the true values 0, 2, 4 and the
  predictions 1, 2, 3 the cell reports 0, while the coefficient of determination of the
  predictions with respect to the true values is 3/4.
\<close>

theorem report_r2_swapped:
  "report_r2 [1, 2, 3]
     [\<lparr>label = 0, smiles_0 = ''C'', bandgap = 0\<rparr>, \<lparr>label = 1, smiles_0 = ''CC'', bandgap = 2\<rparr>,
      \<lparr>label = 2, smiles_0 = ''CCC'', bandgap = 4\<rparr>] = Inr (Some 0)
   \<and> r2_score [0, 2, 4] [1, 2, 3] = Inr (Some (3 / 4))"
  by (simp add: report_r2_def r2_score_def mean_def)

section \<open>Properties of the descriptor stage\<close>

lemma map_err_Inr:
  "map_err f xs = Inr ys \<Longrightarrow> length ys = length xs \<and> list_all (\<lambda>x. \<exists>y. f x = Inr y) xs"
  by (induction xs arbitrary: ys) (auto simp: and_then_Inr)

lemma map_err_Inl:
  assumes "\<And>x e. f x = Inl e \<Longrightarrow> e = err" and "x \<in> set xs" and "f x = Inl err"
  shows "map_err f xs = Inl err"
  using assms(2,3)
proof (induction xs)
  case Nil
  then show ?case by simp
next
  case (Cons a xs)
  show ?case
  proof (cases "f a")
    case (Inl e)
    with assms(1) show ?thesis by simp
  next
    case (Inr y)
    with Cons have "map_err f xs = Inl err" by auto
    with Inr show ?thesis by simp
  qed
qed

lemma calc_pandas_null:
  fixes L :: "('g, 'm) library" and mols :: "(nat \<times> 'm option) list"
  assumes "(i, None) \<in> set mols"
  shows "calc_pandas L mols = Inl TypeError"
proof -
  have "map_err (\<lambda>(i, m). calc_one L m) mols = Inl TypeError"
  proof (rule map_err_Inl)
    show "e = TypeError" if "(case x of (i, m) \<Rightarrow> calc_one L m) = Inl e"
      for x :: "nat \<times> 'm option" and e
      using that by (auto simp: calc_one_def split: prod.splits option.splits)
    show "(i, None) \<in> set mols" by (rule assms)
    show "(case (i, None) of (i, m) \<Rightarrow> calc_one L m) = Inl TypeError"
      by (simp add: calc_one_def)
  qed
  then show ?thesis
    by (simp add: calc_pandas_def)
qed

lemma calc_pandas_shape:
  assumes "calc_pandas L mols = Inr d"
  shows "index d = map fst mols" and "list_all (\<lambda>(c, xs). length xs = length mols) (columns d)"
proof -
  from assms obtain rows where rows: "map_err (\<lambda>(i, m). calc_one L m) mols = Inr rows"
    and d: "d = \<lparr>index = map fst mols,
                 columns = map (\<lambda>j. (names L ! j, map (\<lambda>r. r ! j) rows)) [0..<length (names L)]\<rparr>"
    by (auto simp: calc_pandas_def and_then_Inr)
  from map_err_Inr [OF rows] have len: "length rows = length mols"
    by simp
  show "index d = map fst mols" by (simp add: d)
  show "list_all (\<lambda>(c, xs). length xs = length mols) (columns d)"
    by (simp add: d len list_all_iff)
qed

text \<open>
  C5 (as amended). The parser returns a null result for a string it cannot parse, and
  nothing leaves the record out: its null result is in the Series handed to the descriptor
  calculator, which rejects it. The descriptor stage stops with TypeError, and with it the
  exploration section and every run whose sample holds the record.
\<close>

theorem unparsable_record_stops_run:
  assumes "e \<in> set data" and "MolFromSmiles L (smiles_0 e) = None"
  shows "(label e, None) \<in> set (mol_column L data)
    \<and> descriptor_step L data = Inl TypeError
    \<and> explore L k g data = Inl TypeError
    \<and> (sample L (n_sample cfg) g0 file = Inr (data, g1)
         \<longrightarrow> run_from L cfg file g0 = Inl TypeError)"
proof -
  from assms have null: "(label e, None) \<in> set (mol_column L data)"
    by (force simp: mol_column_def)
  then have ds: "descriptor_step L data = Inl TypeError"
    unfolding descriptor_step_def by (rule calc_pandas_null)
  then have ex: "explore L k' g' data = Inl TypeError" for k' g'
    by (simp add: explore_def)
  then have "run_from L cfg file g0 = Inl TypeError"
    if "sample L (n_sample cfg) g0 file = Inr (data, g1)"
    using that by (simp add: run_from_def)
  with null ds ex show ?thesis
    by blast
qed

theorem unparsable_record_stops_run_witness:
  "\<lparr>label = 0, smiles_0 = ''C('', bandgap = 5\<rparr>
     \<in> set [\<lparr>label = 2, smiles_0 = ''C'', bandgap = 9\<rparr>, \<lparr>label = 0, smiles_0 = ''C('', bandgap = 5\<rparr>]
   \<and> MolFromSmiles demo_library ''C('' = None
   \<and> (0, None) \<in> set (mol_column demo_library
        [\<lparr>label = 2, smiles_0 = ''C'', bandgap = 9\<rparr>, \<lparr>label = 0, smiles_0 = ''C('', bandgap = 5\<rparr>])
   \<and> descriptor_step demo_library
        [\<lparr>label = 2, smiles_0 = ''C'', bandgap = 9\<rparr>, \<lparr>label = 0, smiles_0 = ''C('', bandgap = 5\<rparr>]
       = Inl TypeError
   \<and> explore demo_library 1 129
        [\<lparr>label = 2, smiles_0 = ''C'', bandgap = 9\<rparr>, \<lparr>label = 0, smiles_0 = ''C('', bandgap = 5\<rparr>]
       = Inl TypeError
   \<and> sample demo_library 2 128
        [\<lparr>label = 0, smiles_0 = ''C('', bandgap = 5\<rparr>, \<lparr>label = 1, smiles_0 = ''CC'', bandgap = 6\<rparr>,
         \<lparr>label = 2, smiles_0 = ''C'', bandgap = 9\<rparr>]
       = Inr ([\<lparr>label = 2, smiles_0 = ''C'', bandgap = 9\<rparr>, \<lparr>label = 0, smiles_0 = ''C('', bandgap = 5\<rparr>],
              129)
   \<and> run_from demo_library
        \<lparr>n_sample = 2, explore_components = 1, model_components = 1, reduced_components = 1,
         test_size = 1 / 10\<rparr>
        [\<lparr>label = 0, smiles_0 = ''C('', bandgap = 5\<rparr>, \<lparr>label = 1, smiles_0 = ''CC'', bandgap = 6\<rparr>,
         \<lparr>label = 2, smiles_0 = ''C'', bandgap = 9\<rparr>] 128
       = Inl TypeError"
proof -
  let ?e = "\<lparr>label = 0, smiles_0 = ''C('', bandgap = 5\<rparr>"
  let ?data = "[\<lparr>label = 2, smiles_0 = ''C'', bandgap = 9\<rparr>, ?e]"
  let ?file = "[?e, \<lparr>label = 1, smiles_0 = ''CC'', bandgap = 6\<rparr>,
         \<lparr>label = 2, smiles_0 = ''C'', bandgap = 9\<rparr>]"
  let ?cfg = "\<lparr>n_sample = 2, explore_components = 1, model_components = 1, reduced_components = 1,
         test_size = 1 / 10\<rparr>"
  have mem: "?e \<in> set ?data"
    by simp
  have null: "MolFromSmiles demo_library (smiles_0 ?e) = None"
    by (simp add: demo_library_def)
  have sm: "sample demo_library 2 128 ?file = Inr (?data, 129)"
    by (simp add: sample_def take_rows_def demo_library_def)
  from unparsable_record_stops_run [OF mem null, of 1 129 ?cfg 128 ?file 129] mem null sm
  show ?thesis
    by simp
qed

text \<open>
  C5 (as stated) fails: the Series passed to the calculator holds the null result of the
  unparsable record, and the calculator stops on it.
\<close>

theorem null_graph_reaches_engine_counterexample:
  "MolFromSmiles demo_library ''C(C'' = None
   \<and> mol_column demo_library
       [\<lparr>label = 5, smiles_0 = ''CC'', bandgap = 6\<rparr>, \<lparr>label = 8, smiles_0 = ''C(C'', bandgap = 5\<rparr>,
        \<lparr>label = 2, smiles_0 = ''CCC'', bandgap = 5\<rparr>]
     = [(5, Some 2), (8, None), (2, Some 3)]
   \<and> descriptor_step demo_library
       [\<lparr>label = 5, smiles_0 = ''CC'', bandgap = 6\<rparr>, \<lparr>label = 8, smiles_0 = ''C(C'', bandgap = 5\<rparr>,
        \<lparr>label = 2, smiles_0 = ''CCC'', bandgap = 5\<rparr>]
     = calc_pandas demo_library [(5, Some 2), (8, None), (2, Some 3)]
   \<and> calc_pandas demo_library [(5, Some 2), (8, None), (2, Some 3)] = Inl TypeError"
  by (simp add: descriptor_step_def calc_pandas_def calc_one_def mol_column_def demo_library_def)

section \<open>Row counts through cleaning, scaling and compression\<close>



lemma scaler_fit_transform_Inr:
  "scaler_fit_transform X = Inr (sc, Y) \<Longrightarrow> scaler_fit X = Inr sc \<and> scaler_transform sc X = Inr Y"
  by (auto simp: scaler_fit_transform_def and_then_Inr)




lemma explore_Inr:
  assumes "explore L k g data = Inr (ex, g')"
  shows "\<exists>desc0 X. descriptor_step L data = Inr desc0 \<and> clean L desc0 = Inr (desc ex)
     \<and> to_array (desc ex) = Inr X
     \<and> scaler_fit_transform X = Inr (scaler_obj ex, feats ex)
     \<and> pca_fit_transform L k g (feats ex) = Inr (pca_obj ex, pca_feats ex, g')"
  using assms by (auto simp: explore_def and_then_Inr)


lemmas cell_defs = explore_def descriptor_step_def calc_pandas_def calc_one_def mol_column_def
  demo_library_def clean_def coerce_columns_def drop_columns_def zero_variation_def frame_std_def
  is_numeric_def mean_def variance_def missing_values_def loc_not_def
  to_array_def all_numbers_def scaler_fit_transform_def scaler_fit_def scaler_transform_def
  check_array_def column_def handle_zeros_in_scale_def scale_row_def
  pca_fit_transform_def pca_fit_def pca_transform_def project_def


section \<open>Properties of the hold-out split\<close>

lemma explore_index:
  assumes "explore L k g data = Inr (ex, g')"
  shows "index (desc ex) = map label data"
proof -
  from explore_Inr [OF assms] obtain desc0 where ds: "descriptor_step L data = Inr desc0"
    and cl: "clean L desc0 = Inr (desc ex)"
    by blast
  from ds have "index desc0 = map label data"
    using calc_pandas_shape(1) [of L "mol_column L data" desc0]
    by (simp add: descriptor_step_def mol_column_def comp_def)
  with cl show ?thesis
    by (simp add: clean_index)
qed

lemma selection_pairs:
  assumes rows: "take_rows idx xs = Inr ys" and fr: "iloc idx d = Inr d'"
  shows "length (index d') = length ys"
    and "\<forall>k<length ys. \<exists>i<length xs. ys ! k = xs ! i \<and> frame_row d' k = frame_row d i"
    and "index d = map f xs \<Longrightarrow> index d' = map f ys"
proof -
  from rows have bound: "list_all (\<lambda>i. i < length xs) idx" and ys: "ys = map ((!) xs) idx"
    by (auto simp: take_rows_def split: if_splits)
  from fr have d': "d' = \<lparr>index = map ((!) (index d)) idx,
                           columns = map (\<lambda>(c, xs). (c, map ((!) xs) idx)) (columns d)\<rparr>"
    and bound': "list_all (\<lambda>i. i < length (index d)) idx"
    by (auto simp: iloc_def split: if_splits)
  show "length (index d') = length ys"
    by (simp add: d' ys)
  show "\<forall>k<length ys. \<exists>i<length xs. ys ! k = xs ! i \<and> frame_row d' k = frame_row d i"
  proof (intro allI impI)
    fix k assume k: "k < length ys"
    then have kidx: "k < length idx" by (simp add: ys)
    with bound have "idx ! k < length xs"
      by (simp add: list_all_length)
    moreover from kidx have "ys ! k = xs ! (idx ! k)"
      by (simp add: ys)
    moreover from kidx have "frame_row d' k = frame_row d (idx ! k)"
      by (simp add: frame_row_def d' comp_def case_prod_beta)
    ultimately show "\<exists>i<length xs. ys ! k = xs ! i \<and> frame_row d' k = frame_row d i"
      by blast
  qed
  show "index d' = map f ys" if "index d = map f xs"
    using that bound by (simp add: d' ys list_all_iff)
qed

lemma train_test_split_Inr:
  assumes "train_test_split perm ts data d = Inr (train_data, test_data, train_desc, test_desc)"
  shows "\<exists>train test. take_rows train data = Inr train_data \<and> take_rows test data = Inr test_data
     \<and> iloc train d = Inr train_desc \<and> iloc test d = Inr test_desc"
  using assms by (auto simp: train_test_split_def Let_def and_then_Inr split: if_splits)

text \<open>
  C7. After the split, row \<open>j\<close> of the test records and row \<open>j\<close> of the test descriptors
  come from one and the same position \<open>i\<close> of the tables that were split, and the
  descriptor row carries the label of the record; likewise for the training partition.
  The target is read from the record, the feature vector from the descriptor row.
\<close>

theorem split_keeps_rows_paired:
  assumes "explore L k g data = Inr (ex, g')"
    and "train_test_split perm ts data (desc ex)
           = Inr (train_data, test_data, train_desc, test_desc)"
  shows "index test_desc = map label test_data
    \<and> (\<forall>j<length test_data. \<exists>i<length data.
          test_data ! j = data ! i \<and> frame_row test_desc j = frame_row (desc ex) i)
    \<and> index train_desc = map label train_data
    \<and> (\<forall>j<length train_data. \<exists>i<length data.
          train_data ! j = data ! i \<and> frame_row train_desc j = frame_row (desc ex) i)"
proof -
  from assms(1) have idx: "index (desc ex) = map label data"
    by (rule explore_index)
  from assms(2) obtain train test where
    tr: "take_rows train data = Inr train_data" "iloc train (desc ex) = Inr train_desc"
    and te: "take_rows test data = Inr test_data" "iloc test (desc ex) = Inr test_desc"
    using train_test_split_Inr by blast
  from selection_pairs(2,3) [OF te] selection_pairs(2,3) [OF tr] idx show ?thesis
    by blast
qed

lemmas split_defs = train_test_split_def take_rows_def iloc_def

theorem split_keeps_rows_paired_witness:
  "explore demo_library 1 128
     [\<lparr>label = 7, smiles_0 = ''C'', bandgap = 9\<rparr>, \<lparr>label = 3, smiles_0 = ''CCC'', bandgap = 5\<rparr>,
      \<lparr>label = 4, smiles_0 = ''CC'', bandgap = 6\<rparr>]
   = Inr (\<lparr>desc = \<lparr>index = [7, 3, 4],
                  columns = [(''nC'', [Num 1, Num 3, Num 2]), (''nH'', [Num 4, Num 8, Num 6])]\<rparr>,
          scaler_obj = \<lparr>means = [2, 6], scales = [sqrt (2 / 3), sqrt (8 / 3)]\<rparr>,
          feats = [[- 1 / sqrt (2 / 3), - 2 / sqrt (8 / 3)], [1 / sqrt (2 / 3), 2 / sqrt (8 / 3)], [0, 0]],
          pca_obj = \<lparr>pca_mean = [0, 0], components = [[1, 0]]\<rparr>,
          pca_feats = [[- 1 / sqrt (2 / 3)], [1 / sqrt (2 / 3)], [0]],
          lasso_obj = \<lparr>coef = [0], intercept = 20 / 3\<rparr>\<rparr>, 129)
   \<and> train_test_split [2, 1, 0] (1 / 10)
     [\<lparr>label = 7, smiles_0 = ''C'', bandgap = 9\<rparr>, \<lparr>label = 3, smiles_0 = ''CCC'', bandgap = 5\<rparr>,
      \<lparr>label = 4, smiles_0 = ''CC'', bandgap = 6\<rparr>]
     \<lparr>index = [7, 3, 4],
      columns = [(''nC'', [Num 1, Num 3, Num 2]), (''nH'', [Num 4, Num 8, Num 6])]\<rparr>
   = Inr ([\<lparr>label = 3, smiles_0 = ''CCC'', bandgap = 5\<rparr>, \<lparr>label = 7, smiles_0 = ''C'', bandgap = 9\<rparr>],
          [\<lparr>label = 4, smiles_0 = ''CC'', bandgap = 6\<rparr>],
          \<lparr>index = [3, 7], columns = [(''nC'', [Num 3, Num 1]), (''nH'', [Num 8, Num 4])]\<rparr>,
          \<lparr>index = [4], columns = [(''nC'', [Num 2]), (''nH'', [Num 6])]\<rparr>)
   \<and> index \<lparr>index = [4], columns = [(''nC'', [Num 2]), (''nH'', [Num 6])]\<rparr>
       = map label [\<lparr>label = 4, smiles_0 = ''CC'', bandgap = 6\<rparr>]
   \<and> index \<lparr>index = [3, 7], columns = [(''nC'', [Num 3, Num 1]), (''nH'', [Num 8, Num 4])]\<rparr>
       = map label [\<lparr>label = 3, smiles_0 = ''CCC'', bandgap = 5\<rparr>, \<lparr>label = 7, smiles_0 = ''C'', bandgap = 9\<rparr>]"
proof -
  let ?data = "[\<lparr>label = 7, smiles_0 = ''C'', bandgap = 9\<rparr>, \<lparr>label = 3, smiles_0 = ''CCC'', bandgap = 5\<rparr>,
      \<lparr>label = 4, smiles_0 = ''CC'', bandgap = 6\<rparr>]"
  let ?d = "\<lparr>index = [7, 3, 4],
      columns = [(''nC'', [Num 1, Num 3, Num 2]), (''nH'', [Num 4, Num 8, Num 6])]\<rparr>"
  let ?ex = "\<lparr>desc = ?d,
          scaler_obj = \<lparr>means = [2, 6], scales = [sqrt (2 / 3), sqrt (8 / 3)]\<rparr>,
          feats = [[- 1 / sqrt (2 / 3), - 2 / sqrt (8 / 3)], [1 / sqrt (2 / 3), 2 / sqrt (8 / 3)], [0, 0]],
          pca_obj = \<lparr>pca_mean = [0, 0], components = [[1, 0]]\<rparr>,
          pca_feats = [[- 1 / sqrt (2 / 3)], [1 / sqrt (2 / 3)], [0]],
          lasso_obj = \<lparr>coef = [0], intercept = 20 / 3\<rparr>\<rparr>"
  have run: "explore demo_library 1 128 ?data = Inr (?ex, 129)"
    by (simp add: cell_defs)
  have split: "train_test_split [2, 1, 0] (1 / 10) ?data (desc ?ex)
      = Inr ([\<lparr>label = 3, smiles_0 = ''CCC'', bandgap = 5\<rparr>, \<lparr>label = 7, smiles_0 = ''C'', bandgap = 9\<rparr>],
          [\<lparr>label = 4, smiles_0 = ''CC'', bandgap = 6\<rparr>],
          \<lparr>index = [3, 7], columns = [(''nC'', [Num 3, Num 1]), (''nH'', [Num 8, Num 4])]\<rparr>,
          \<lparr>index = [4], columns = [(''nC'', [Num 2]), (''nH'', [Num 6])]\<rparr>)"
    by (simp add: split_defs)
  from split_keeps_rows_paired [OF run split] run split show ?thesis
    by simp
qed

section \<open>The scaler of the model pipeline\<close>

lemma pipeline_fit_Inr:
  assumes "pipeline_fit L k g X y = Inr (m, g')"
  shows "\<exists>Xs Xp. scaler_fit_transform X = Inr (scale_step m, Xs)
     \<and> pca_fit_transform L k g Xs = Inr (pca_step m, Xp, g')"
  using assms by (auto simp: pipeline_fit_def and_then_Inr)

lemma fit_predict_Inr:
  assumes "fit_predict L k g train_desc train_data test_desc = Inr (m, preds, g')"
  shows "\<exists>X. to_array train_desc = Inr X
     \<and> pipeline_fit L k g X (map bandgap train_data) = Inr (m, g')"
proof -
  from assms obtain X m0 Xt where X: "to_array train_desc = Inr X"
    and fit: "pipeline_fit L k g X (map bandgap train_data) = Inr (m0, g')"
    and pred: "pipeline_predict m0 Xt = Inr (m, preds)"
    by (auto simp: fit_predict_def and_then_Inr)
  from pred have "m = m0"
    by (auto simp: pipeline_predict_def and_then_Inr)
  with X fit show ?thesis
    by blast
qed

text \<open>
  C4 (as amended). The scaler inside the model pipeline is the scaler fit on the training
  descriptors alone, and the pipeline after \<open>predict\<close> is the pipeline as \<open>fit\<close> left it:
  predicting on the test rows changes none of the fitted vectors.
\<close>

theorem fit_predict_scaler_from_train:
  assumes "fit_predict L k g train_desc train_data test_desc = Inr (m, preds, g')"
  shows "\<exists>X. to_array train_desc = Inr X \<and> scaler_fit X = Inr (scale_step m)
           \<and> pipeline_fit L k g X (map bandgap train_data) = Inr (m, g')"
proof -
  from fit_predict_Inr [OF assms] obtain X where X: "to_array train_desc = Inr X"
    and fit: "pipeline_fit L k g X (map bandgap train_data) = Inr (m, g')"
    by blast
  from pipeline_fit_Inr [OF fit] obtain Xs where "scaler_fit_transform X = Inr (scale_step m, Xs)"
    by blast
  then have "scaler_fit X = Inr (scale_step m)"
    using scaler_fit_transform_Inr by blast
  with X fit show ?thesis
    by blast
qed

theorem fit_predict_scaler_from_train_witness:
  "fit_predict demo_library 1 131
     \<lparr>index = [7, 3], columns = [(''nC'', [Num 1, Num 3]), (''nH'', [Num 4, Num 8])]\<rparr>
     [\<lparr>label = 7, smiles_0 = ''C'', bandgap = 9\<rparr>, \<lparr>label = 3, smiles_0 = ''CCC'', bandgap = 5\<rparr>]
     \<lparr>index = [4], columns = [(''nC'', [Num 2]), (''nH'', [Num 6])]\<rparr>
   = Inr (\<lparr>scale_step = \<lparr>means = [2, 6], scales = [1, 2]\<rparr>,
           pca_step = \<lparr>pca_mean = [0, 0], components = [[1, 0]]\<rparr>,
           lasso_step = \<lparr>coef = [0], intercept = 7\<rparr>\<rparr>, [7], 132)
   \<and> to_array \<lparr>index = [7, 3], columns = [(''nC'', [Num 1, Num 3]), (''nH'', [Num 4, Num 8])]\<rparr>
       = Inr [[1, 4], [3, 8]]
   \<and> scaler_fit [[1, 4], [3, 8]] = Inr \<lparr>means = [2, 6], scales = [1, 2]\<rparr>"
proof -
  have run: "fit_predict demo_library 1 131
     \<lparr>index = [7, 3], columns = [(''nC'', [Num 1, Num 3]), (''nH'', [Num 4, Num 8])]\<rparr>
     [\<lparr>label = 7, smiles_0 = ''C'', bandgap = 9\<rparr>, \<lparr>label = 3, smiles_0 = ''CCC'', bandgap = 5\<rparr>]
     \<lparr>index = [4], columns = [(''nC'', [Num 2]), (''nH'', [Num 6])]\<rparr>
   = Inr (\<lparr>scale_step = \<lparr>means = [2, 6], scales = [1, 2]\<rparr>,
           pca_step = \<lparr>pca_mean = [0, 0], components = [[1, 0]]\<rparr>,
           lasso_step = \<lparr>coef = [0], intercept = 7\<rparr>\<rparr>, [7], 132)"
    by (simp add: fit_predict_def pipeline_fit_def pipeline_predict_def lasso_predict_def cell_defs)
  from fit_predict_scaler_from_train [OF run] run show ?thesis
    by (auto simp: to_array_def all_numbers_def)
qed

text \<open>
  C4 (as stated) fails for the stand-alone scaler of the exploration section, which is fit
  on the whole table. With the third row held out, the training rows alone give the scales
  1 and 2; the stand-alone scaler has other scales, computed from all three rows.
\<close>

theorem exploration_scaler_counterexample:
  "train_test_split [2, 1, 0] (1 / 10)
     [\<lparr>label = 7, smiles_0 = ''C'', bandgap = 9\<rparr>, \<lparr>label = 3, smiles_0 = ''CCC'', bandgap = 5\<rparr>,
      \<lparr>label = 4, smiles_0 = ''CC'', bandgap = 6\<rparr>]
     \<lparr>index = [7, 3, 4],
      columns = [(''nC'', [Num 1, Num 3, Num 2]), (''nH'', [Num 4, Num 8, Num 6])]\<rparr>
   = Inr ([\<lparr>label = 3, smiles_0 = ''CCC'', bandgap = 5\<rparr>, \<lparr>label = 7, smiles_0 = ''C'', bandgap = 9\<rparr>],
          [\<lparr>label = 4, smiles_0 = ''CC'', bandgap = 6\<rparr>],
          \<lparr>index = [3, 7], columns = [(''nC'', [Num 3, Num 1]), (''nH'', [Num 8, Num 4])]\<rparr>,
          \<lparr>index = [4], columns = [(''nC'', [Num 2]), (''nH'', [Num 6])]\<rparr>)
   \<and> scaler_fit_transform [[1, 4], [3, 8], [2, 6]]
     = Inr (\<lparr>means = [2, 6], scales = [sqrt (2 / 3), sqrt (8 / 3)]\<rparr>,
            [[- 1 / sqrt (2 / 3), - 2 / sqrt (8 / 3)], [1 / sqrt (2 / 3), 2 / sqrt (8 / 3)], [0, 0]])
   \<and> scaler_fit [[3, 8], [1, 4]] = Inr \<lparr>means = [2, 6], scales = [1, 2]\<rparr>
   \<and> sqrt (2 / 3) \<noteq> 1"
  by (simp add: split_defs cell_defs)

section \<open>The random generator\<close>









end
